theory Spec2Isabelle
  imports Complex_Main "HOL-Library.Word"
begin

section \<open>Configuration constants\<close>

text \<open>
  The macros of \<^verbatim>\<open>config_settings.h\<close> and \<^verbatim>\<open>adc_sampling.h\<close> that the acquisition core
  and the calibration arithmetic use. C \<^verbatim>\<open>float\<close> values are read as real numbers: every
  floating-point operation is taken as the exact real operation, so rounding, infinities
  and NaN are outside this development.
\<close>

definition ADC_SAMPLING_FFT_SIZE :: nat where
  "ADC_SAMPLING_FFT_SIZE = 1024"

definition SAMPLING_RATE_HZ :: nat where
  "SAMPLING_RATE_HZ = 128000"

definition ADC_SAMPLING_RATE :: nat where
  "ADC_SAMPLING_RATE = SAMPLING_RATE_HZ"

definition ADC_SAMPLING_CHANNEL :: nat where
  "ADC_SAMPLING_CHANNEL = 0"

definition SAMPLING_INTERVAL_US :: real where
  "SAMPLING_INTERVAL_US = 1000000 / real SAMPLING_RATE_HZ"

definition ADC_DMA_ENABLED :: bool where
  "ADC_DMA_ENABLED = True"

definition ADC_DMA_CHANNEL_AUTO :: int where
  "ADC_DMA_CHANNEL_AUTO = - 1"

definition ADC_DMA_PRIORITY :: nat where
  "ADC_DMA_PRIORITY = 0"

section \<open>Data model of the acquisition core\<close>

datatype adc_sampling_mode_t = ADC_MODE_MANUAL | ADC_MODE_DMA

datatype adc_sampling_status_t =
  ADC_STATUS_IDLE | ADC_STATUS_SAMPLING | ADC_STATUS_DATA_READY | ADC_STATUS_ERROR

text \<open>
  The struct holds two sample arrays, \<^verbatim>\<open>buffer_ping\<close> and \<^verbatim>\<open>buffer_pong\<close>, and two
  pointers into them. The only values the code ever stores in the pointers are \<^verbatim>\<open>NULL\<close>
  and the addresses of the two arrays, so a pointer is an optional array name.
\<close>

datatype buffer_id = Ping | Pong

type_synonym buffer_ptr = "buffer_id option"

text \<open>
  Peripheral accesses, in program order. Stores to the volatile flag \<^verbatim>\<open>data_ready\<close>
  (made by the assignment statements of the code) are recorded in the same sequence,
  because the flag is what the other context reads: the order of a store relative to
  the peripheral accesses is observable from there. Diagnostic \<^verbatim>\<open>printf\<close> output is
  not recorded.
\<close>

datatype hw_event =
    AdcInit
  | AdcGpioInit nat
  | AdcSelectInput nat
  | AdcSetClkdiv real
  | AdcSetRoundRobin nat
  | AdcFifoSetup
  | DmaClaimChannel int
  | DmaIrq0Enable int
  | IrqInstallHandler
  | IrqSetEnabled bool
  | IrqSetPriority nat
  | DmaChannelConfigure int buffer_ptr nat bool
  | DmaChannelStart int
  | DmaChannelAbort int
  | DmaIrqAck int
  | AdcRun bool
  | AdcRead
  | SleepUs nat
  | StoreDataReady bool

text \<open>
  One record for the global \<^verbatim>\<open>g_unified_analyzer\<close> and the board it runs on. The fields
  up to \<open>actual_sample_rate\<close> are the fields of \<^verbatim>\<open>unified_fft_analyzer_t\<close> (the opaque
  \<^verbatim>\<open>dma_config\<close> and the never-used \<^verbatim>\<open>last_sample_time\<close> are left out; \<open>fft_cfg\<close> says
  whether the configuration pointer is non-null). The remaining fields are the
  environment: the microsecond timer, the conversion results the ADC will deliver and how
  many were read so far, the duration of one blocking conversion, the outcome of the
  allocation in \<^verbatim>\<open>kiss_fft_alloc\<close>, the channel \<^verbatim>\<open>dma_claim_unused_channel\<close> hands out, and
  the event sequence.
\<close>

record machine =
  mode :: adc_sampling_mode_t
  status :: adc_sampling_status_t
  buffer_ping :: "16 word list"
  buffer_pong :: "16 word list"
  current_buffer :: buffer_ptr
  ready_buffer :: buffer_ptr
  buffer_selector :: bool
  data_ready :: bool
  sampling_active :: bool
  sample_count :: "32 word"
  buffer_overruns :: "32 word"
  dma_channel :: int
  dma_error :: bool
  manual_sample_index :: "32 word"
  fft_input :: "complex list"
  fft_output :: "complex list"
  fft_cfg :: bool
  magnitude :: "real list"
  fft_ready :: bool
  sampling_start_time :: nat
  last_buffer_completion :: nat
  actual_sample_rate :: real
  clock_us :: nat
  adc_input :: "nat \<Rightarrow> 16 word"
  adc_reads :: nat
  adc_conversion_us :: nat
  fft_alloc_ok :: bool
  dma_free_channel :: int
  trace :: "hw_event list"

definition hw :: "hw_event list \<Rightarrow> machine \<Rightarrow> machine" where
  "hw es m = m\<lparr>trace := trace m @ es\<rparr>"

definition get_absolute_time :: "machine \<Rightarrow> nat" where
  "get_absolute_time m = clock_us m"

definition absolute_time_diff_us :: "nat \<Rightarrow> nat \<Rightarrow> int" where
  "absolute_time_diff_us from_t to_t = int to_t - int from_t"

text \<open>\<^verbatim>\<open>sleep_us\<close> takes an unsigned integer: a fractional argument is truncated.\<close>

definition sleep_us :: "nat \<Rightarrow> machine \<Rightarrow> machine" where
  "sleep_us n m = (hw [SleepUs n] m)\<lparr>clock_us := clock_us m + n\<rparr>"

definition adc_read :: "machine \<Rightarrow> 16 word \<times> machine" where
  "adc_read m =
     (adc_input m (adc_reads m),
      (hw [AdcRead] m)\<lparr>adc_reads := Suc (adc_reads m),
                        clock_us := clock_us m + adc_conversion_us m\<rparr>)"

definition buffer_contents :: "buffer_id \<Rightarrow> machine \<Rightarrow> 16 word list" where
  "buffer_contents b m = (case b of Ping \<Rightarrow> buffer_ping m | Pong \<Rightarrow> buffer_pong m)"

definition buffer_store :: "buffer_id \<Rightarrow> nat \<Rightarrow> 16 word \<Rightarrow> machine \<Rightarrow> machine" where
  "buffer_store b idx v m =
     (case b of
        Ping \<Rightarrow> m\<lparr>buffer_ping := (buffer_ping m)[idx := v]\<rparr>
      | Pong \<Rightarrow> m\<lparr>buffer_pong := (buffer_pong m)[idx := v]\<rparr>)"

section \<open>Acquisition core (adc_sampling.c)\<close>

text \<open>\<^verbatim>\<open>memset(&g_unified_analyzer, 0, sizeof ...)\<close>: every field of the struct is zero.\<close>

definition memset_analyzer :: "machine \<Rightarrow> machine" where
  "memset_analyzer m =
     m\<lparr>mode := ADC_MODE_MANUAL, status := ADC_STATUS_IDLE,
       buffer_ping := replicate ADC_SAMPLING_FFT_SIZE 0,
       buffer_pong := replicate ADC_SAMPLING_FFT_SIZE 0,
       current_buffer := None, ready_buffer := None, buffer_selector := False,
       data_ready := False, sampling_active := False,
       sample_count := 0, buffer_overruns := 0,
       dma_channel := 0, dma_error := False, manual_sample_index := 0,
       fft_input := replicate ADC_SAMPLING_FFT_SIZE 0,
       fft_output := replicate ADC_SAMPLING_FFT_SIZE 0,
       fft_cfg := False,
       magnitude := replicate (ADC_SAMPLING_FFT_SIZE div 2) 0,
       fft_ready := False,
       sampling_start_time := 0, last_buffer_completion := 0,
       actual_sample_rate := 0\<rparr>"

definition adc_swap_buffers :: "machine \<Rightarrow> machine" where
  "adc_swap_buffers m =
     (let m1 = m\<lparr>ready_buffer := current_buffer m\<rparr>;
          m2 = m1\<lparr>buffer_selector := \<not> buffer_selector m1\<rparr>
      in m2\<lparr>current_buffer := (if buffer_selector m2 then Some Pong else Some Ping)\<rparr>)"

definition adc_dma_init :: "machine \<Rightarrow> bool \<times> machine" where
  "adc_dma_init m =
     (if ADC_DMA_ENABLED then
        (let m1 = hw [AdcSetRoundRobin 0, AdcFifoSetup] m;
             m2 = (if ADC_DMA_CHANNEL_AUTO = - 1
                   then (hw [DmaClaimChannel (dma_free_channel m1)] m1)
                          \<lparr>dma_channel := dma_free_channel m1\<rparr>
                   else (hw [DmaClaimChannel ADC_DMA_CHANNEL_AUTO] m1)
                          \<lparr>dma_channel := ADC_DMA_CHANNEL_AUTO\<rparr>)
         in if dma_channel m2 < 0 then (False, m2)
            else (True, hw [DmaIrq0Enable (dma_channel m2), IrqInstallHandler,
                            IrqSetEnabled True, IrqSetPriority ADC_DMA_PRIORITY] m2))
      else (False, m))"

definition adc_manual_init :: "machine \<Rightarrow> bool \<times> machine" where
  "adc_manual_init m = (True, m\<lparr>manual_sample_index := 0\<rparr>)"

definition adc_sampling_init :: "adc_sampling_mode_t \<Rightarrow> machine \<Rightarrow> bool \<times> machine" where
  "adc_sampling_init md m =
     (let m1 = (memset_analyzer m)\<lparr>mode := md, status := ADC_STATUS_IDLE\<rparr>;
          m2 = hw [AdcInit, AdcGpioInit 26, AdcSelectInput ADC_SAMPLING_CHANNEL,
                   AdcSetClkdiv (48000000 / real ADC_SAMPLING_RATE)] m1;
          m3 = m2\<lparr>current_buffer := Some Ping, ready_buffer := None,
                  buffer_selector := False\<rparr>;
          m4 = m3\<lparr>fft_cfg := fft_alloc_ok m3\<rparr>
      in if \<not> fft_cfg m4 then (False, m4)
         else if md = ADC_MODE_DMA then adc_dma_init m4
         else adc_manual_init m4)"

definition adc_sampling_reset_counters :: "machine \<Rightarrow> machine" where
  "adc_sampling_reset_counters m =
     m\<lparr>sample_count := 0, buffer_overruns := 0, actual_sample_rate := 0\<rparr>"

definition adc_dma_start :: "machine \<Rightarrow> machine" where
  "adc_dma_start m =
     (if ADC_DMA_ENABLED then
        hw [DmaChannelConfigure (dma_channel m) (current_buffer m) ADC_SAMPLING_FFT_SIZE False,
            DmaChannelStart (dma_channel m), AdcRun True] m
      else m)"

definition adc_dma_stop :: "machine \<Rightarrow> machine" where
  "adc_dma_stop m =
     (if ADC_DMA_ENABLED then hw [AdcRun False, DmaChannelAbort (dma_channel m)] m else m)"

definition adc_sampling_start :: "machine \<Rightarrow> bool \<times> machine" where
  "adc_sampling_start m =
     (if status m = ADC_STATUS_SAMPLING then (True, m)
      else
        (let m1 = adc_sampling_reset_counters m;
             m2 = m1\<lparr>sampling_start_time := get_absolute_time m1\<rparr>;
             m3 = (if mode m2 = ADC_MODE_DMA then adc_dma_start m2 else m2)
         in (True, m3\<lparr>status := ADC_STATUS_SAMPLING, sampling_active := True\<rparr>)))"

definition adc_sampling_stop :: "machine \<Rightarrow> bool \<times> machine" where
  "adc_sampling_stop m =
     (if status m = ADC_STATUS_IDLE then (True, m)
      else
        (let m1 = (if mode m = ADC_MODE_DMA then adc_dma_stop m else m);
             m2 = (hw [StoreDataReady False] m1)
                    \<lparr>status := ADC_STATUS_IDLE, sampling_active := False,
                     data_ready := False\<rparr>;
             total_time = absolute_time_diff_us (sampling_start_time m2) (get_absolute_time m2)
         in (True,
             if total_time > 0
             then m2\<lparr>actual_sample_rate :=
                       real (unat (sample_count m2)) * 1000000 / real_of_int total_time\<rparr>
             else m2)))"

text \<open>
  The blocking loop \<^verbatim>\<open>for (i = 0; i < ADC_SAMPLING_FFT_SIZE; i++)\<close>: the first argument
  counts the iterations still to run, the second is \<^verbatim>\<open>i\<close>.
\<close>

primrec manual_sample_loop :: "nat \<Rightarrow> nat \<Rightarrow> buffer_id \<Rightarrow> machine \<Rightarrow> machine" where
  "manual_sample_loop 0 idx b m = m"
| "manual_sample_loop (Suc k) idx b m =
     (let (v, m1) = adc_read m;
          m2 = buffer_store b idx v m1;
          m3 = sleep_us (nat \<lfloor>SAMPLING_INTERVAL_US\<rfloor>) m2
      in manual_sample_loop k (Suc idx) b m3)"

text \<open>
  Sampling through a null \<^verbatim>\<open>current_buffer\<close> (the analyzer was never initialised) is a
  store through a null pointer: the result is \<open>None\<close>.
\<close>

definition adc_manual_sample_buffer :: "machine \<Rightarrow> machine option" where
  "adc_manual_sample_buffer m =
     (case current_buffer m of
        None \<Rightarrow> None
      | Some b \<Rightarrow>
          (let sample_start = get_absolute_time m;
               m1 = manual_sample_loop ADC_SAMPLING_FFT_SIZE 0 b m;
               m2 = m1\<lparr>sample_count := sample_count m1 + of_nat ADC_SAMPLING_FFT_SIZE\<rparr>;
               sample_end = get_absolute_time m2;
               sample_time_us = absolute_time_diff_us sample_start sample_end;
               m3 = (if sample_time_us > 0 then
                       (let current_rate =
                              real ADC_SAMPLING_FFT_SIZE * 1000000 / real_of_int sample_time_us
                        in if actual_sample_rate m2 = 0
                           then m2\<lparr>actual_sample_rate := current_rate\<rparr>
                           else m2\<lparr>actual_sample_rate :=
                                      (9 / 10) * actual_sample_rate m2 + (1 / 10) * current_rate\<rparr>)
                     else m2);
               m4 = adc_swap_buffers m3;
               m5 = (hw [StoreDataReady True] m4)\<lparr>data_ready := True\<rparr>
           in Some (m5\<lparr>last_buffer_completion := get_absolute_time m5\<rparr>)))"

definition adc_sampling_is_ready :: "machine \<Rightarrow> (bool \<times> machine) option" where
  "adc_sampling_is_ready m =
     (if mode m = ADC_MODE_MANUAL \<and> sampling_active m \<and> \<not> data_ready m
      then (case adc_manual_sample_buffer m of
              None \<Rightarrow> None
            | Some m1 \<Rightarrow> Some (data_ready m1, m1))
      else Some (data_ready m, m))"

definition adc_sampling_get_buffer :: "machine \<Rightarrow> buffer_ptr" where
  "adc_sampling_get_buffer m = (if \<not> data_ready m then None else ready_buffer m)"

definition adc_sampling_complete_processing :: "machine \<Rightarrow> machine" where
  "adc_sampling_complete_processing m =
     (if data_ready m
      then (hw [StoreDataReady False] m)
             \<lparr>data_ready := False, fft_ready := False, ready_buffer := None\<rparr>
      else m)"


definition adc_sampling_get_mode :: "machine \<Rightarrow> adc_sampling_mode_t" where
  "adc_sampling_get_mode m = mode m"

definition adc_sampling_get_actual_rate :: "machine \<Rightarrow> real" where
  "adc_sampling_get_actual_rate m = actual_sample_rate m"

definition adc_sampling_get_overrun_count :: "machine \<Rightarrow> 32 word" where
  "adc_sampling_get_overrun_count m = buffer_overruns m"

definition adc_sampling_get_sample_count :: "machine \<Rightarrow> 32 word" where
  "adc_sampling_get_sample_count m = sample_count m"

text \<open>
  The completion interrupt of the transfer channel. The handler is installed by
  \<open>adc_dma_init\<close> only, so it runs in DMA mode; it reads neither \<open>mode\<close> nor \<open>status\<close>
  nor \<open>dma_error\<close>.
\<close>

definition adc_dma_interrupt_handler :: "machine \<Rightarrow> machine" where
  "adc_dma_interrupt_handler m =
     (if ADC_DMA_ENABLED then
        (let m1 = hw [DmaIrqAck (dma_channel m)] m;
             m2 = m1\<lparr>sample_count := sample_count m1 + of_nat ADC_SAMPLING_FFT_SIZE\<rparr>;
             m3 = (if data_ready m2
                   then m2\<lparr>buffer_overruns := buffer_overruns m2 + 1\<rparr> else m2);
             m4 = adc_swap_buffers m3;
             m5 = hw [DmaChannelConfigure (dma_channel m4) (current_buffer m4)
                        ADC_SAMPLING_FFT_SIZE True] m4;
             m6 = (hw [StoreDataReady True] m5)\<lparr>data_ready := True\<rparr>
         in m6\<lparr>last_buffer_completion := get_absolute_time m6\<rparr>)
      else m)"

section \<open>Window and calibration constants (config_settings.h)\<close>

definition ADC_REFERENCE_VOLTAGE :: real where
  "ADC_REFERENCE_VOLTAGE = 33 / 10"

definition ADC_RESOLUTION_BITS :: nat where
  "ADC_RESOLUTION_BITS = 12"

definition ADC_VOLTAGE_PER_BIT :: real where
  "ADC_VOLTAGE_PER_BIT = ADC_REFERENCE_VOLTAGE / 2 ^ ADC_RESOLUTION_BITS"

definition DB_REFERENCE_VOLTAGE_0DBM :: real where
  "DB_REFERENCE_VOLTAGE_0DBM = 274 / 1000"

definition DB_REFERENCE_IMPEDANCE :: real where
  "DB_REFERENCE_IMPEDANCE = 75"

definition ADC_INPUT_IMPEDANCE :: real where
  "ADC_INPUT_IMPEDANCE = 100000"

definition SIGNAL_SOURCE_IMPEDANCE :: real where
  "SIGNAL_SOURCE_IMPEDANCE = 75"

definition IMPEDANCE_CORRECTION_FACTOR :: real where
  "IMPEDANCE_CORRECTION_FACTOR =
     (ADC_INPUT_IMPEDANCE + SIGNAL_SOURCE_IMPEDANCE) / ADC_INPUT_IMPEDANCE"

definition FFT_WINDOW_TYPE :: nat where
  "FFT_WINDOW_TYPE = 0"

definition KAISER_BESSEL_BETA :: real where
  "KAISER_BESSEL_BETA = 85 / 10"

definition AMPLITUDE_RANGE_MIN_DB :: real where
  "AMPLITUDE_RANGE_MIN_DB = - 100"

definition AMPLITUDE_RANGE_MAX_DB :: real where
  "AMPLITUDE_RANGE_MAX_DB = 20"

text \<open>
  The seven window shapes, in the order of the selector \<^verbatim>\<open>FFT_WINDOW_TYPE\<close> (0 to 6), with
  the two macro families \<^verbatim>\<open>WINDOW_COHERENT_GAIN_*\<close> and \<^verbatim>\<open>WINDOW_AMPLITUDE_CORRECTION_*\<close>.
  Each correction macro repeats the literal of its gain macro as a denominator.
\<close>

datatype window_shape =
  RECTANGLE | HAMMING | HANN | BLACKMAN | BLACKMANHARRIS | KAISER_BESSEL | FLATTOP

fun WINDOW_COHERENT_GAIN :: "window_shape \<Rightarrow> real" where
  "WINDOW_COHERENT_GAIN RECTANGLE = 1"
| "WINDOW_COHERENT_GAIN HAMMING = 54 / 100"
| "WINDOW_COHERENT_GAIN HANN = 5 / 10"
| "WINDOW_COHERENT_GAIN BLACKMAN = 42 / 100"
| "WINDOW_COHERENT_GAIN BLACKMANHARRIS = 35875 / 100000"
| "WINDOW_COHERENT_GAIN KAISER_BESSEL = 4 / 10"
| "WINDOW_COHERENT_GAIN FLATTOP = 2156 / 10000"

fun WINDOW_AMPLITUDE_CORRECTION :: "window_shape \<Rightarrow> real" where
  "WINDOW_AMPLITUDE_CORRECTION RECTANGLE = 1 / 1"
| "WINDOW_AMPLITUDE_CORRECTION HAMMING = 1 / (54 / 100)"
| "WINDOW_AMPLITUDE_CORRECTION HANN = 1 / (5 / 10)"
| "WINDOW_AMPLITUDE_CORRECTION BLACKMAN = 1 / (42 / 100)"
| "WINDOW_AMPLITUDE_CORRECTION BLACKMANHARRIS = 1 / (35875 / 100000)"
| "WINDOW_AMPLITUDE_CORRECTION KAISER_BESSEL = 1 / (4 / 10)"
| "WINDOW_AMPLITUDE_CORRECTION FLATTOP = 1 / (2156 / 10000)"

definition window_shapes :: "window_shape list" where
  "window_shapes =
     [RECTANGLE, HAMMING, HANN, BLACKMAN, BLACKMANHARRIS, KAISER_BESSEL, FLATTOP]"

section \<open>Transform and calibration of the unified analyzer (adc_sampling.c)\<close>

text \<open>The \<^verbatim>\<open>switch (FFT_WINDOW_TYPE)\<close> of \<^verbatim>\<open>_adc_apply_window_function\<close>, at sample \<open>idx\<close>.\<close>

definition window_coefficient :: "nat \<Rightarrow> nat \<Rightarrow> real" where
  "window_coefficient wt idx =
     (let n1 = real (ADC_SAMPLING_FFT_SIZE - 1); x = real idx in
      if wt = 0 then 1
      else if wt = 1 then 54 / 100 - (46 / 100) * cos (2 * pi * x / n1)
      else if wt = 2 then (5 / 10) * (1 - cos (2 * pi * x / n1))
      else if wt = 3 then
        42 / 100 - (5 / 10) * cos (2 * pi * x / n1) + (8 / 100) * cos (4 * pi * x / n1)
      else if wt = 4 then
        35875 / 100000 - (48829 / 100000) * cos (2 * pi * x / n1)
          + (14128 / 100000) * cos (4 * pi * x / n1)
          - (1168 / 100000) * cos (6 * pi * x / n1)
      else if wt = 5 then
        (let alpha = n1 / 2; y = (x - alpha) / alpha;
             arg = KAISER_BESSEL_BETA * sqrt (1 - y * y)
         in if arg < 50 then exp (arg - KAISER_BESSEL_BETA) else 0)
      else if wt = 6 then
        1 - (193 / 100) * cos (2 * pi * x / n1) + (129 / 100) * cos (4 * pi * x / n1)
          - (388 / 1000) * cos (6 * pi * x / n1) + (32 / 1000) * cos (8 * pi * x / n1)
      else 1)"

text \<open>
  DC removal and windowing. The sample arrays have \<^verbatim>\<open>ADC_SAMPLING_FFT_SIZE\<close> entries in
  C; the list is read at the indices below that size.
\<close>

definition adc_apply_window_function :: "16 word list \<Rightarrow> complex list" where
  "adc_apply_window_function adc_buffer =
     (let dc_offset =
            (\<Sum>idx \<leftarrow> [0..<ADC_SAMPLING_FFT_SIZE]. real (unat (adc_buffer ! idx)))
              / real ADC_SAMPLING_FFT_SIZE
      in map (\<lambda>idx. Complex ((real (unat (adc_buffer ! idx)) - dc_offset)
                               * window_coefficient FFT_WINDOW_TYPE idx) 0)
             [0..<ADC_SAMPLING_FFT_SIZE])"

text \<open>
  The body of the magnitude loop of \<^verbatim>\<open>adc_sampling_process_fft\<close>, in its three stages:
  magnitude and normalisation, conversion to volts, conversion to dBm.
\<close>

definition process_fft_magnitude :: "complex \<Rightarrow> real" where
  "process_fft_magnitude c =
     (let re = Re c; im = Im c; mag = sqrt (re * re + im * im)
      in mag / real ADC_SAMPLING_FFT_SIZE)"

definition process_fft_db :: "real \<Rightarrow> real" where
  "process_fft_db voltage_magnitude =
     (if voltage_magnitude > 1 / 10 ^ 10
      then 20 * log 10 (voltage_magnitude / DB_REFERENCE_VOLTAGE_0DBM)
      else - 200)"

definition process_fft_bin :: "complex \<Rightarrow> real" where
  "process_fft_bin c = process_fft_db (process_fft_magnitude c * ADC_VOLTAGE_PER_BIT)"

text \<open>
  \<^verbatim>\<open>kiss_fft\<close> is a library outside the repository's sources: the transform is a
  parameter, returning the bins for the given input.
\<close>

text \<open>The magnitude loop over the first half of the bins.\<close>

definition process_fft_spectrum :: "complex list \<Rightarrow> real list" where
  "process_fft_spectrum fft_out =
     map (\<lambda>idx. process_fft_bin (fft_out ! idx)) [0..<ADC_SAMPLING_FFT_SIZE div 2]"

definition adc_sampling_process_fft ::
  "(complex list \<Rightarrow> complex list) \<Rightarrow> machine \<Rightarrow> bool \<times> machine" where
  "adc_sampling_process_fft kiss_fft m =
     (case adc_sampling_get_buffer m of
        None \<Rightarrow> (False, m)
      | Some b \<Rightarrow>
          (let m1 = m\<lparr>fft_input := adc_apply_window_function (buffer_contents b m)\<rparr>;
               m2 = m1\<lparr>fft_output := kiss_fft (fft_input m1)\<rparr>;
               m3 = m2\<lparr>magnitude := process_fft_spectrum (fft_output m2)\<rparr>
           in (True, m3\<lparr>fft_ready := True\<rparr>)))"

definition adc_sampling_is_fft_ready :: "machine \<Rightarrow> bool" where
  "adc_sampling_is_fft_ready m = fft_ready m"

definition adc_sampling_get_magnitude_spectrum :: "machine \<Rightarrow> real list option" where
  "adc_sampling_get_magnitude_spectrum m = (if \<not> fft_ready m then None else Some (magnitude m))"

section \<open>Publishing to the display (fft_realtime_unified.c, fft_streaming_display.c)\<close>

definition fft_realtime_unified_get_window_correction :: real where
  "fft_realtime_unified_get_window_correction =
     (if FFT_WINDOW_TYPE < 7
      then map WINDOW_AMPLITUDE_CORRECTION window_shapes ! FFT_WINDOW_TYPE
      else 1)"

text \<open>
  \<^verbatim>\<open>fft_realtime_unified_update_display\<close> builds \<^verbatim>\<open>corrected_spectrum\<close> and hands it to
  \<^verbatim>\<open>fft_streaming_display_update_spectrum\<close>: the result below is the array handed over.
\<close>

definition fft_realtime_unified_update_display :: "real list \<Rightarrow> real list" where
  "fft_realtime_unified_update_display magnitude_spectrum =
     (let window_correction = fft_realtime_unified_get_window_correction
      in map (\<lambda>bin. magnitude_spectrum ! bin + 20 * log 10 window_correction)
             [0..<ADC_SAMPLING_FFT_SIZE div 2])"

text \<open>
  Inside \<^verbatim>\<open>fft_streaming_display_update_spectrum\<close>, the value of a bin is read from the
  array it received and clamped (lower bound first) before smoothing and plotting.
\<close>

definition stream_clamp_db :: "real \<Rightarrow> real" where
  "stream_clamp_db db_value =
     (let d1 = (if db_value < - 100 then - 100 else db_value)
      in if d1 > 20 then 20 else d1)"

definition stream_db_value :: "real list \<Rightarrow> nat \<Rightarrow> real" where
  "stream_db_value magnitude_db bin = stream_clamp_db (magnitude_db ! bin)"

section \<open>The earlier single-buffer loop (fft_realtime_analysis)\<close>

definition FFT_SIZE :: nat where
  "FFT_SIZE = 1024"

text \<open>The \<^verbatim>\<open>switch\<close> that picks \<^verbatim>\<open>window_correction\<close> in \<^verbatim>\<open>fft_realtime_analysis\<close>.\<close>

definition realtime_window_correction :: "nat \<Rightarrow> real" where
  "realtime_window_correction wt =
     (if wt = 0 then WINDOW_AMPLITUDE_CORRECTION HAMMING
      else if wt = 1 then WINDOW_AMPLITUDE_CORRECTION HANN
      else if wt = 2 then WINDOW_AMPLITUDE_CORRECTION BLACKMAN
      else if wt = 3 then WINDOW_AMPLITUDE_CORRECTION BLACKMANHARRIS
      else if wt = 4 then WINDOW_AMPLITUDE_CORRECTION KAISER_BESSEL
      else if wt = 5 then WINDOW_AMPLITUDE_CORRECTION FLATTOP
      else WINDOW_AMPLITUDE_CORRECTION HAMMING)"

definition realtime_magnitude :: "nat \<Rightarrow> complex \<Rightarrow> real" where
  "realtime_magnitude idx c =
     (let re = Re c; im = Im c;
          mag = sqrt (re * re + im * im);
          mag1 = mag * realtime_window_correction FFT_WINDOW_TYPE
      in if idx = 0 then mag1 / real FFT_SIZE else mag1 / real (FFT_SIZE div 2))"

definition realtime_db :: "real \<Rightarrow> real" where
  "realtime_db voltage_magnitude =
     (let corrected_voltage = voltage_magnitude * IMPEDANCE_CORRECTION_FACTOR
      in if corrected_voltage > 1 / 10 ^ 9
         then 20 * log 10 (corrected_voltage / DB_REFERENCE_VOLTAGE_0DBM)
         else - 120)"

definition realtime_clamp_db :: "real \<Rightarrow> real" where
  "realtime_clamp_db db =
     (let d1 = (if db > 20 then 20 else db)
      in if d1 < - 100 then - 100 else d1)"

text \<open>The array \<^verbatim>\<open>magnitude_db\<close> that the earlier loop hands to the display.\<close>

definition realtime_magnitude_db :: "complex list \<Rightarrow> real list" where
  "realtime_magnitude_db fft_out =
     map (\<lambda>idx. realtime_clamp_db
                  (realtime_db (realtime_magnitude idx (fft_out ! idx) * ADC_VOLTAGE_PER_BIT)))
         [0..<FFT_SIZE div 2]"

section \<open>Runs of the acquisition core\<close>

text \<open>
  The entry points of the acquisition core as calls, with the completion interrupt and
  the passing of time as further steps. A run stops with \<open>None\<close> at a store through a
  null pointer.
\<close>

datatype api_call =
    Init adc_sampling_mode_t
  | Start
  | Stop
  | IsReady
  | GetBuffer
  | CompleteProcessing
  | ResetCounters
  | ProcessFft
  | SwapBuffers
  | DmaCompletionIrq
  | TimePasses nat

fun exec :: "(complex list \<Rightarrow> complex list) \<Rightarrow> api_call \<Rightarrow> machine \<Rightarrow> machine option" where
  "exec kf (Init md) m = Some (snd (adc_sampling_init md m))"
| "exec kf Start m = Some (snd (adc_sampling_start m))"
| "exec kf Stop m = Some (snd (adc_sampling_stop m))"
| "exec kf IsReady m = map_option snd (adc_sampling_is_ready m)"
| "exec kf GetBuffer m = Some m"
| "exec kf CompleteProcessing m = Some (adc_sampling_complete_processing m)"
| "exec kf ResetCounters m = Some (adc_sampling_reset_counters m)"
| "exec kf ProcessFft m = Some (snd (adc_sampling_process_fft kf m))"
| "exec kf SwapBuffers m = Some (adc_swap_buffers m)"
| "exec kf DmaCompletionIrq m = Some (adc_dma_interrupt_handler m)"
| "exec kf (TimePasses n) m = Some (m\<lparr>clock_us := clock_us m + n\<rparr>)"

fun run :: "(complex list \<Rightarrow> complex list) \<Rightarrow> api_call list \<Rightarrow> machine \<Rightarrow> machine option" where
  "run kf [] m = Some m"
| "run kf (c # cs) m = (case exec kf c m of None \<Rightarrow> None | Some m1 \<Rightarrow> run kf cs m1)"

text \<open>
  The state of the statically zero-initialised global before any call, on a board whose
  timer reads 0, whose ADC delivers the given samples, whose conversions take 2
  microseconds, whose allocator succeeds and whose first free channel is 0.
\<close>

definition power_on :: "(nat \<Rightarrow> 16 word) \<Rightarrow> machine" where
  "power_on samples =
     \<lparr>mode = ADC_MODE_MANUAL, status = ADC_STATUS_IDLE,
      buffer_ping = replicate ADC_SAMPLING_FFT_SIZE 0,
      buffer_pong = replicate ADC_SAMPLING_FFT_SIZE 0,
      current_buffer = None, ready_buffer = None, buffer_selector = False,
      data_ready = False, sampling_active = False,
      sample_count = 0, buffer_overruns = 0,
      dma_channel = 0, dma_error = False, manual_sample_index = 0,
      fft_input = replicate ADC_SAMPLING_FFT_SIZE 0,
      fft_output = replicate ADC_SAMPLING_FFT_SIZE 0,
      fft_cfg = False,
      magnitude = replicate (ADC_SAMPLING_FFT_SIZE div 2) 0,
      fft_ready = False,
      sampling_start_time = 0, last_buffer_completion = 0,
      actual_sample_rate = 0,
      clock_us = 0, adc_input = samples, adc_reads = 0, adc_conversion_us = 2,
      fft_alloc_ok = True, dma_free_channel = 0, trace = []\<rparr>"

text \<open>The invariant of the buffer pointers after initialisation.\<close>

definition buffers_consistent :: "machine \<Rightarrow> bool" where
  "buffers_consistent m =
     (current_buffer m = (if buffer_selector m then Some Pong else Some Ping)
      \<and> ready_buffer m \<noteq> current_buffer m
      \<and> (if data_ready m then ready_buffer m \<noteq> None else True))"

text \<open>The pointer \<open>b\<close> is the write target, respectively the ready buffer.\<close>

definition is_write_target :: "buffer_id \<Rightarrow> machine \<Rightarrow> bool" where
  "is_write_target b m = (current_buffer m = Some b)"

definition is_ready_buffer :: "buffer_id \<Rightarrow> machine \<Rightarrow> bool" where
  "is_ready_buffer b m = (ready_buffer m = Some b)"

text \<open>
  Two auxiliary functions for reasoning about the sampling loop: one iteration of its
  body, and the effect of \<open>k\<close> iterations on the array written.
\<close>

definition sample_step :: "nat \<Rightarrow> buffer_id \<Rightarrow> machine \<Rightarrow> machine" where
  "sample_step idx b m =
     (let (v, m1) = adc_read m;
          m2 = buffer_store b idx v m1
      in sleep_us (nat \<lfloor>SAMPLING_INTERVAL_US\<rfloor>) m2)"

primrec fill :: "nat \<Rightarrow> nat \<Rightarrow> (nat \<Rightarrow> 16 word) \<Rightarrow> nat \<Rightarrow> 16 word list \<Rightarrow> 16 word list" where
  "fill 0 idx s r xs = xs"
| "fill (Suc k) idx s r xs = fill k (Suc idx) s (Suc r) (xs[idx := s r])"

text \<open>
  Concrete runs used to exhibit the statements below: the analyzer initialised and
  started in each mode on a board that delivers the sample \<open>n mod 7\<close> at the \<open>n\<close>-th
  conversion, and the DMA run after one completed transfer.
\<close>

definition board0 :: machine where
  "board0 = power_on (\<lambda>n. of_nat (n mod 7))"

definition manual_started :: machine where
  "manual_started = snd (adc_sampling_start (snd (adc_sampling_init ADC_MODE_MANUAL board0)))"

definition dma_started :: machine where
  "dma_started = snd (adc_sampling_start (snd (adc_sampling_init ADC_MODE_DMA board0)))"

definition dma_one_frame :: machine where
  "dma_one_frame = adc_dma_interrupt_handler dma_started"

text \<open>Invariants of the runs: the sample arrays keep their size, and no step raises a fault.\<close>

definition arrays_sized :: "machine \<Rightarrow> bool" where
  "arrays_sized m =
     (length (buffer_ping m) = ADC_SAMPLING_FFT_SIZE \<and> length (buffer_pong m) = ADC_SAMPLING_FFT_SIZE)"


section \<open>The sampling loop\<close>

lemma interval_floor: "nat \<lfloor>SAMPLING_INTERVAL_US\<rfloor> = 7"
  by (simp add: SAMPLING_INTERVAL_US_def SAMPLING_RATE_HZ_def)

lemma sample_step_eq:
  "sample_step idx b m =
     m\<lparr>buffer_ping := (if b = Ping then (buffer_ping m)[idx := adc_input m (adc_reads m)] else buffer_ping m),
       buffer_pong := (if b = Pong then (buffer_pong m)[idx := adc_input m (adc_reads m)] else buffer_pong m),
       clock_us := clock_us m + (adc_conversion_us m + 7),
       adc_reads := Suc (adc_reads m),
       trace := trace m @ [AdcRead, SleepUs 7]\<rparr>"
  by (cases b) (simp_all add: sample_step_def adc_read_def buffer_store_def sleep_us_def hw_def interval_floor)

lemma loop_Suc: "manual_sample_loop (Suc k) idx b m = manual_sample_loop k (Suc idx) b (sample_step idx b m)"
  by (simp add: sample_step_def split: prod.split)

lemma manual_sample_loop_closed:
  "manual_sample_loop k idx b m =
     m\<lparr>buffer_ping := (if b = Ping then fill k idx (adc_input m) (adc_reads m) (buffer_ping m) else buffer_ping m),
       buffer_pong := (if b = Pong then fill k idx (adc_input m) (adc_reads m) (buffer_pong m) else buffer_pong m),
       clock_us := clock_us m + k * (adc_conversion_us m + 7),
       adc_reads := adc_reads m + k,
       trace := trace m @ concat (replicate k [AdcRead, SleepUs 7])\<rparr>"
proof (induction k arbitrary: idx m)
  case 0
  show ?case by simp
next
  case (Suc k)
  show ?case
    unfolding loop_Suc Suc.IH
    by (cases b) (simp_all add: sample_step_eq)
qed

lemma fill_closed:
  "idx + k \<le> length xs \<Longrightarrow> fill k idx s r xs = take idx xs @ map s [r..<r + k] @ drop (idx + k) xs"
proof (induction k arbitrary: idx r xs)
  case 0
  then show ?case by simp
next
  case (Suc k)
  from Suc.prems have lt: "idx < length xs" by simp
  have up: "[r..<r + Suc k] = r # [Suc r..<Suc r + k]"
    by (simp add: upt_conv_Cons del: upt_Suc)
  have "fill (Suc k) idx s r xs = fill k (Suc idx) s (Suc r) (xs[idx := s r])" by simp
  also have "\<dots> = take (Suc idx) (xs[idx := s r]) @ map s [Suc r..<Suc r + k]
                     @ drop (Suc idx + k) (xs[idx := s r])"
    using Suc.prems by (intro Suc.IH) simp
  also have "take (Suc idx) (xs[idx := s r]) = take idx xs @ [s r]"
    using lt by (simp add: take_Suc_conv_app_nth)
  also have "drop (Suc idx + k) (xs[idx := s r]) = drop (idx + Suc k) xs"
    by simp
  finally show ?case unfolding up by simp
qed

lemma fill_whole:
  "length xs = k \<Longrightarrow> fill k 0 s r xs = map s [r..<r + k]"
  by (simp add: fill_closed)

lemma length_fill: "length (fill k idx s r xs) = length xs"
  by (induction k arbitrary: idx r xs) simp_all

section \<open>Effect of each operation on the handoff fields\<close>

lemma swap_fields:
  "current_buffer (adc_swap_buffers m) = (if buffer_selector m then Some Ping else Some Pong)"
  "ready_buffer (adc_swap_buffers m) = current_buffer m"
  "buffer_selector (adc_swap_buffers m) = (\<not> buffer_selector m)"
  "data_ready (adc_swap_buffers m) = data_ready m"
  "status (adc_swap_buffers m) = status m"
  "dma_error (adc_swap_buffers m) = dma_error m"
  "mode (adc_swap_buffers m) = mode m"
  by (simp_all add: adc_swap_buffers_def Let_def)

lemma swap_consistent: "buffers_consistent m \<Longrightarrow> buffers_consistent (adc_swap_buffers m)"
  by (auto simp: buffers_consistent_def swap_fields split: if_splits)

lemma manual_sample_buffer_fields:
  assumes "adc_manual_sample_buffer m = Some m'"
  shows "current_buffer m' = (if buffer_selector m then Some Ping else Some Pong)"
    and "ready_buffer m' = current_buffer m"
    and "buffer_selector m' = (\<not> buffer_selector m)"
    and "data_ready m'"
    and "status m' = status m"
    and "dma_error m' = dma_error m"
    and "mode m' = mode m"
  using assms
  by (auto simp: adc_manual_sample_buffer_def manual_sample_loop_closed adc_swap_buffers_def
      Let_def hw_def get_absolute_time_def split: option.splits if_splits)

lemma isr_fields:
  shows "current_buffer (adc_dma_interrupt_handler m) = (if buffer_selector m then Some Ping else Some Pong)"
    and "ready_buffer (adc_dma_interrupt_handler m) = current_buffer m"
    and "buffer_selector (adc_dma_interrupt_handler m) = (\<not> buffer_selector m)"
    and "data_ready (adc_dma_interrupt_handler m)"
    and "status (adc_dma_interrupt_handler m) = status m"
    and "dma_error (adc_dma_interrupt_handler m) = dma_error m"
    and "mode (adc_dma_interrupt_handler m) = mode m"
    and "buffer_overruns (adc_dma_interrupt_handler m) = (if data_ready m then buffer_overruns m + 1 else buffer_overruns m)"
    and "sample_count (adc_dma_interrupt_handler m) = sample_count m + 1024"
    and "trace (adc_dma_interrupt_handler m) =
           trace m @ [DmaIrqAck (dma_channel m),
                      DmaChannelConfigure (dma_channel m) (if buffer_selector m then Some Ping else Some Pong) ADC_SAMPLING_FFT_SIZE True,
                      StoreDataReady True]"
  by (simp_all add: adc_dma_interrupt_handler_def ADC_DMA_ENABLED_def adc_swap_buffers_def
      Let_def hw_def get_absolute_time_def ADC_SAMPLING_FFT_SIZE_def)

lemma init_fields:
  shows "current_buffer (snd (adc_sampling_init md m)) = Some Ping"
    and "ready_buffer (snd (adc_sampling_init md m)) = None"
    and "buffer_selector (snd (adc_sampling_init md m)) = False"
    and "data_ready (snd (adc_sampling_init md m)) = False"
    and "status (snd (adc_sampling_init md m)) = ADC_STATUS_IDLE"
    and "dma_error (snd (adc_sampling_init md m)) = False"
    and "mode (snd (adc_sampling_init md m)) = md"
  by (simp_all add: adc_sampling_init_def memset_analyzer_def adc_dma_init_def adc_manual_init_def
      Let_def hw_def ADC_DMA_ENABLED_def ADC_DMA_CHANNEL_AUTO_def)

lemma init_consistent: "buffers_consistent (snd (adc_sampling_init md m))"
  by (simp add: buffers_consistent_def init_fields)

lemma start_fields:
  shows "current_buffer (snd (adc_sampling_start m)) = current_buffer m"
    and "ready_buffer (snd (adc_sampling_start m)) = ready_buffer m"
    and "buffer_selector (snd (adc_sampling_start m)) = buffer_selector m"
    and "data_ready (snd (adc_sampling_start m)) = data_ready m"
    and "status (snd (adc_sampling_start m)) = ADC_STATUS_SAMPLING"
    and "dma_error (snd (adc_sampling_start m)) = dma_error m"
    and "mode (snd (adc_sampling_start m)) = mode m"
  by (simp_all add: adc_sampling_start_def adc_sampling_reset_counters_def adc_dma_start_def
      Let_def hw_def get_absolute_time_def ADC_DMA_ENABLED_def)

lemma stop_fields:
  shows "current_buffer (snd (adc_sampling_stop m)) = current_buffer m"
    and "ready_buffer (snd (adc_sampling_stop m)) = ready_buffer m"
    and "buffer_selector (snd (adc_sampling_stop m)) = buffer_selector m"
    and "data_ready (snd (adc_sampling_stop m)) = (if status m = ADC_STATUS_IDLE then data_ready m else False)"
    and "status (snd (adc_sampling_stop m)) = ADC_STATUS_IDLE"
    and "dma_error (snd (adc_sampling_stop m)) = dma_error m"
    and "mode (snd (adc_sampling_stop m)) = mode m"
  by (simp_all add: adc_sampling_stop_def adc_dma_stop_def
      Let_def hw_def get_absolute_time_def ADC_DMA_ENABLED_def)

lemma release_fields:
  shows "current_buffer (adc_sampling_complete_processing m) = current_buffer m"
    and "ready_buffer (adc_sampling_complete_processing m) = (if data_ready m then None else ready_buffer m)"
    and "buffer_selector (adc_sampling_complete_processing m) = buffer_selector m"
    and "data_ready (adc_sampling_complete_processing m) = False"
    and "status (adc_sampling_complete_processing m) = status m"
    and "dma_error (adc_sampling_complete_processing m) = dma_error m"
    and "mode (adc_sampling_complete_processing m) = mode m"
  by (simp_all add: adc_sampling_complete_processing_def hw_def)

lemma process_fields:
  shows "current_buffer (snd (adc_sampling_process_fft kf m)) = current_buffer m"
    and "ready_buffer (snd (adc_sampling_process_fft kf m)) = ready_buffer m"
    and "buffer_selector (snd (adc_sampling_process_fft kf m)) = buffer_selector m"
    and "data_ready (snd (adc_sampling_process_fft kf m)) = data_ready m"
    and "status (snd (adc_sampling_process_fft kf m)) = status m"
    and "dma_error (snd (adc_sampling_process_fft kf m)) = dma_error m"
    and "mode (snd (adc_sampling_process_fft kf m)) = mode m"
  by (simp_all add: adc_sampling_process_fft_def Let_def split: option.split)

lemma is_ready_cases:
  assumes "adc_sampling_is_ready m = Some (r, m')"
  shows "m' = m \<and> r = data_ready m \<or> adc_manual_sample_buffer m = Some m' \<and> r"
  using assms
  by (auto simp: adc_sampling_is_ready_def manual_sample_buffer_fields split: if_splits option.splits)

lemma manual_sample_buffer_result:
  assumes cur: "current_buffer m = Some b"
    and len: "length (buffer_contents b m) = ADC_SAMPLING_FFT_SIZE"
  shows "\<exists>m'. adc_manual_sample_buffer m = Some m'
            \<and> buffer_contents b m' = map (adc_input m) [adc_reads m..<adc_reads m + ADC_SAMPLING_FFT_SIZE]
            \<and> ready_buffer m' = Some b
            \<and> data_ready m'
            \<and> adc_reads m' = adc_reads m + ADC_SAMPLING_FFT_SIZE
            \<and> clock_us m' = clock_us m + ADC_SAMPLING_FFT_SIZE * (adc_conversion_us m + 7)
            \<and> trace m' = trace m @ concat (replicate ADC_SAMPLING_FFT_SIZE [AdcRead, SleepUs 7])
                            @ [StoreDataReady True]"
  using len
  by (cases b)
     (simp_all add: adc_manual_sample_buffer_def cur manual_sample_loop_closed fill_whole
        buffer_contents_def adc_swap_buffers_def Let_def hw_def get_absolute_time_def)

lemma manual_sample_buffer_arrays:
  assumes "adc_manual_sample_buffer m = Some m'"
  shows "length (buffer_ping m') = length (buffer_ping m)"
    and "length (buffer_pong m') = length (buffer_pong m)"
  using assms
  by (auto simp: adc_manual_sample_buffer_def manual_sample_loop_closed adc_swap_buffers_def
      Let_def hw_def get_absolute_time_def length_fill split: option.splits if_splits)

lemma arrays_untouched:
  "buffer_ping (snd (adc_sampling_start m)) = buffer_ping m"
  "buffer_pong (snd (adc_sampling_start m)) = buffer_pong m"
  "buffer_ping (snd (adc_sampling_stop m)) = buffer_ping m"
  "buffer_pong (snd (adc_sampling_stop m)) = buffer_pong m"
  "buffer_ping (adc_sampling_complete_processing m) = buffer_ping m"
  "buffer_pong (adc_sampling_complete_processing m) = buffer_pong m"
  "buffer_ping (adc_sampling_reset_counters m) = buffer_ping m"
  "buffer_pong (adc_sampling_reset_counters m) = buffer_pong m"
  "buffer_ping (snd (adc_sampling_process_fft kf m)) = buffer_ping m"
  "buffer_pong (snd (adc_sampling_process_fft kf m)) = buffer_pong m"
  "buffer_ping (adc_swap_buffers m) = buffer_ping m"
  "buffer_pong (adc_swap_buffers m) = buffer_pong m"
  "buffer_ping (adc_dma_interrupt_handler m) = buffer_ping m"
  "buffer_pong (adc_dma_interrupt_handler m) = buffer_pong m"
  by (simp_all add: adc_sampling_start_def adc_sampling_stop_def adc_sampling_complete_processing_def
      adc_sampling_reset_counters_def adc_sampling_process_fft_def adc_swap_buffers_def
      adc_dma_interrupt_handler_def adc_dma_start_def adc_dma_stop_def
      Let_def hw_def get_absolute_time_def split: option.split)

lemma init_arrays: "arrays_sized (snd (adc_sampling_init md m))"
  by (simp add: arrays_sized_def adc_sampling_init_def memset_analyzer_def adc_dma_init_def
      adc_manual_init_def Let_def hw_def ADC_DMA_ENABLED_def ADC_DMA_CHANNEL_AUTO_def)

section \<open>Invariants of runs\<close>

lemma exec_consistent:
  assumes "buffers_consistent m" and "exec kf c m = Some m'"
  shows "buffers_consistent m'"
proof (cases c)
  case (Init md)
  with assms show ?thesis by (auto simp: init_consistent)
next
  case Start
  with assms show ?thesis by (auto simp: buffers_consistent_def start_fields)
next
  case Stop
  with assms show ?thesis by (auto simp: buffers_consistent_def stop_fields split: if_splits)
next
  case IsReady
  with assms obtain r where "adc_sampling_is_ready m = Some (r, m')" by auto
  from is_ready_cases [OF this] assms(1) show ?thesis
    by (auto simp: buffers_consistent_def manual_sample_buffer_fields split: if_splits)
next
  case GetBuffer
  with assms show ?thesis by auto
next
  case CompleteProcessing
  with assms show ?thesis by (auto simp: buffers_consistent_def release_fields split: if_splits)
next
  case ResetCounters
  with assms show ?thesis by (auto simp: buffers_consistent_def adc_sampling_reset_counters_def)
next
  case ProcessFft
  with assms show ?thesis by (auto simp: buffers_consistent_def process_fields)
next
  case SwapBuffers
  with assms show ?thesis by (auto simp: swap_consistent)
next
  case DmaCompletionIrq
  with assms show ?thesis by (auto simp: buffers_consistent_def isr_fields split: if_splits)
next
  case (TimePasses n)
  with assms show ?thesis by (auto simp: buffers_consistent_def)
qed

lemma run_consistent:
  "buffers_consistent m \<Longrightarrow> run kf cs m = Some m' \<Longrightarrow> buffers_consistent m'"
proof (induction cs arbitrary: m)
  case Nil
  then show ?case by simp
next
  case (Cons c cs)
  then show ?case by (auto split: option.splits dest: exec_consistent)
qed



lemma exec_arrays:
  assumes "arrays_sized m" and "exec kf c m = Some m'"
  shows "arrays_sized m'"
proof (cases c)
  case IsReady
  with assms obtain r where "adc_sampling_is_ready m = Some (r, m')" by auto
  from is_ready_cases [OF this] assms(1) show ?thesis
    by (auto simp: arrays_sized_def manual_sample_buffer_arrays)
qed (use assms in \<open>auto simp: arrays_sized_def arrays_untouched init_arrays [unfolded arrays_sized_def]\<close>)

lemma run_arrays:
  "arrays_sized m \<Longrightarrow> run kf cs m = Some m' \<Longrightarrow> arrays_sized m'"
proof (induction cs arbitrary: m)
  case Nil
  then show ?case by simp
next
  case (Cons c cs)
  then show ?case by (auto split: option.splits dest: exec_arrays)
qed

lemma exec_total:
  assumes "buffers_consistent m"
  shows "\<exists>m'. exec kf c m = Some m'"
proof (cases c)
  case IsReady
  from assms obtain b where "current_buffer m = Some b"
    by (auto simp: buffers_consistent_def split: if_splits)
  then have "\<exists>m'. adc_manual_sample_buffer m = Some m'"
    by (simp add: adc_manual_sample_buffer_def Let_def)
  then show ?thesis using IsReady
    by (auto simp: adc_sampling_is_ready_def)
qed simp_all

lemma run_total:
  "buffers_consistent m \<Longrightarrow> \<exists>m'. run kf cs m = Some m'"
proof (induction cs arbitrary: m)
  case Nil
  then show ?case by simp
next
  case (Cons c cs)
  from exec_total [OF Cons.prems] obtain m1 where e: "exec kf c m = Some m1" by blast
  with Cons.prems have "buffers_consistent m1" by (rule exec_consistent)
  from Cons.IH [OF this] e show ?case by simp
qed

section \<open>Facts about the concrete runs\<close>

lemma manual_started_facts:
  "mode manual_started = ADC_MODE_MANUAL" "sampling_active manual_started"
  "\<not> data_ready manual_started" "current_buffer manual_started = Some Ping"
  "length (buffer_contents Ping manual_started) = ADC_SAMPLING_FFT_SIZE"
  "adc_reads manual_started = 0" "clock_us manual_started = 0"
  by (simp_all add: manual_started_def board0_def power_on_def adc_sampling_start_def
      adc_sampling_init_def memset_analyzer_def adc_manual_init_def adc_sampling_reset_counters_def
      Let_def hw_def get_absolute_time_def buffer_contents_def)

lemma dma_started_facts:
  "mode dma_started = ADC_MODE_DMA" "sampling_active dma_started"
  "\<not> data_ready dma_started" "current_buffer dma_started = Some Ping"
  "ready_buffer dma_started = None" "\<not> buffer_selector dma_started"
  "status dma_started = ADC_STATUS_SAMPLING" "dma_channel dma_started = 0"
  "buffer_overruns dma_started = 0" "\<not> dma_error dma_started"
  by (simp_all add: dma_started_def board0_def power_on_def adc_sampling_start_def
      adc_sampling_init_def memset_analyzer_def adc_dma_init_def adc_dma_start_def adc_sampling_reset_counters_def
      Let_def hw_def get_absolute_time_def buffer_contents_def ADC_DMA_ENABLED_def ADC_DMA_CHANNEL_AUTO_def)

lemma dma_one_frame_facts:
  "mode dma_one_frame = ADC_MODE_DMA" "data_ready dma_one_frame"
  "ready_buffer dma_one_frame = Some Ping" "current_buffer dma_one_frame = Some Pong"
  "buffer_overruns dma_one_frame = 0" "buffer_selector dma_one_frame"
  "status dma_one_frame = ADC_STATUS_SAMPLING"
  by (simp_all add: dma_one_frame_def isr_fields dma_started_facts)

section \<open>Calibration arithmetic\<close>

lemma process_fft_magnitude_eq:
  "process_fft_magnitude c = sqrt ((Re c)\<^sup>2 + (Im c)\<^sup>2) / 1024"
  by (simp add: process_fft_magnitude_def Let_def ADC_SAMPLING_FFT_SIZE_def power2_eq_square)

lemma realtime_magnitude_eq:
  "realtime_magnitude idx c =
     (if idx = 0 then realtime_window_correction FFT_WINDOW_TYPE * sqrt ((Re c)\<^sup>2 + (Im c)\<^sup>2) / 1024
      else realtime_window_correction FFT_WINDOW_TYPE * sqrt ((Re c)\<^sup>2 + (Im c)\<^sup>2) / 512)"
  by (simp add: realtime_magnitude_def Let_def FFT_SIZE_def power2_eq_square)

lemma clamp_range: "- 100 \<le> stream_clamp_db x \<and> stream_clamp_db x \<le> 20"
  by (simp add: stream_clamp_db_def Let_def)

lemma rclamp_range: "- 100 \<le> realtime_clamp_db x \<and> realtime_clamp_db x \<le> 20"
  by (simp add: realtime_clamp_db_def Let_def)

lemma window_correction_one: "fft_realtime_unified_get_window_correction = 1"
  by (simp add: fft_realtime_unified_get_window_correction_def FFT_WINDOW_TYPE_def window_shapes_def)

lemma process_fft_bin_zero: "process_fft_bin 0 = - 200"
  by (simp add: process_fft_bin_def process_fft_magnitude_def process_fft_db_def Let_def)

lemma ln10_ge_2: "2 \<le> ln (10::real)"
proof -
  have "exp (2::real) = exp 1 * exp 1" by (simp flip: exp_add)
  also have "\<dots> \<le> 3 * 3" by (intro mult_mono exp_le) simp_all
  finally have "exp (2::real) \<le> 10" by simp
  then show ?thesis by (simp add: ln_ge_iff)
qed

lemma ref_ratio_bound:
  "\<bar>20 * log 10 (DB_REFERENCE_VOLTAGE_0DBM / sqrt ((1 / 1000) * DB_REFERENCE_IMPEDANCE))\<bar> < 1 / 100"
proof -
  let ?r = "(DB_REFERENCE_VOLTAGE_0DBM)\<^sup>2 / ((1 / 1000) * DB_REFERENCE_IMPEDANCE)"
  have r: "?r = 1 + 76 / 75000"
    by (simp add: DB_REFERENCE_VOLTAGE_0DBM_def DB_REFERENCE_IMPEDANCE_def power2_eq_square)
  have pos: "0 < DB_REFERENCE_VOLTAGE_0DBM" "0 < (1 / 1000) * DB_REFERENCE_IMPEDANCE"
    by (simp_all add: DB_REFERENCE_VOLTAGE_0DBM_def DB_REFERENCE_IMPEDANCE_def)
  have qpos: "0 < DB_REFERENCE_VOLTAGE_0DBM / sqrt ((1 / 1000) * DB_REFERENCE_IMPEDANCE)"
    using pos by simp
  have "(DB_REFERENCE_VOLTAGE_0DBM / sqrt ((1 / 1000) * DB_REFERENCE_IMPEDANCE))\<^sup>2 = ?r"
    using pos by (simp add: power_divide)
  then have "ln ?r = ln ((DB_REFERENCE_VOLTAGE_0DBM / sqrt ((1 / 1000) * DB_REFERENCE_IMPEDANCE))\<^sup>2)"
    by simp
  also have "\<dots> = 2 * ln (DB_REFERENCE_VOLTAGE_0DBM / sqrt ((1 / 1000) * DB_REFERENCE_IMPEDANCE))"
    using qpos by (simp only: ln_realpow)
  finally have "2 * ln (DB_REFERENCE_VOLTAGE_0DBM / sqrt ((1 / 1000) * DB_REFERENCE_IMPEDANCE)) = ln ?r"
    by simp
  moreover have "ln ?r \<le> 76 / 75000" "0 \<le> ln ?r"
    unfolding r using ln_add_one_self_le_self [of "76 / 75000 :: real"] by simp_all
  ultimately have l: "0 \<le> ln (DB_REFERENCE_VOLTAGE_0DBM / sqrt ((1 / 1000) * DB_REFERENCE_IMPEDANCE))"
     "ln (DB_REFERENCE_VOLTAGE_0DBM / sqrt ((1 / 1000) * DB_REFERENCE_IMPEDANCE)) \<le> 38 / 75000"
    by linarith+
  let ?l = "ln (DB_REFERENCE_VOLTAGE_0DBM / sqrt ((1 / 1000) * DB_REFERENCE_IMPEDANCE))"
  have "?l / ln 10 \<le> (38 / 75000) / 2"
    using l ln10_ge_2 by (intro frac_le) simp_all
  moreover have "0 \<le> ?l / ln 10" using l ln10_ge_2 by simp
  moreover have "log 10 (DB_REFERENCE_VOLTAGE_0DBM / sqrt ((1 / 1000) * DB_REFERENCE_IMPEDANCE))
                   = ?l / ln 10"
    by (simp only: log_def)
  ultimately show ?thesis by linarith
qed

lemma log10_pos: "1 < x \<Longrightarrow> 0 < log 10 (x::real)"
  by simp

lemma process_fft_db_above:
  "v > 1 / 10 ^ 10 \<Longrightarrow> process_fft_db v = 20 * log 10 (v / DB_REFERENCE_VOLTAGE_0DBM)"
  by (simp add: process_fft_db_def)

lemma log_ratio_split:
  assumes "0 < v"
  shows "20 * log 10 (v / DB_REFERENCE_VOLTAGE_0DBM)
       = 20 * log 10 (v / sqrt ((1 / 1000) * DB_REFERENCE_IMPEDANCE))
         - 20 * log 10 (DB_REFERENCE_VOLTAGE_0DBM / sqrt ((1 / 1000) * DB_REFERENCE_IMPEDANCE))"
proof -
  have pos: "0 < DB_REFERENCE_VOLTAGE_0DBM" "0 < sqrt ((1 / 1000) * DB_REFERENCE_IMPEDANCE)"
    by (simp_all add: DB_REFERENCE_VOLTAGE_0DBM_def DB_REFERENCE_IMPEDANCE_def)
  show ?thesis using assms pos by (simp add: log_divide)
qed

section \<open>Properties of the double buffer\<close>

text \<open>
  Claim C1. In DMA mode, when a transfer completes while an unread ready buffer exists
  (\<open>data_ready\<close> is set), the completion handler adds exactly 1 to the overrun counter
  (an unsigned 32-bit addition), and the next \<^verbatim>\<open>adc_sampling_get_buffer\<close> returns the buffer
  that was just filled (the write target before the handler ran), which is a real buffer
  and differs from the unread buffer that is discarded. The handler acknowledges the
  interrupt, then configures and triggers the next transfer into the new write target,
  and only then stores the ready flag. The state is any state reached from
  \<^verbatim>\<open>adc_sampling_init\<close> by any sequence of calls.
\<close>

theorem dma_overrun_hands_over_new_buffer:
  assumes reach: "run kf calls (snd (adc_sampling_init md m0)) = Some m"
    and drv: "mode m = ADC_MODE_DMA"
    and unread: "data_ready m"
  shows "buffer_overruns (adc_dma_interrupt_handler m) = buffer_overruns m + 1
       \<and> adc_sampling_get_buffer (adc_dma_interrupt_handler m) = current_buffer m
       \<and> adc_sampling_get_buffer (adc_dma_interrupt_handler m) \<noteq> ready_buffer m
       \<and> adc_sampling_get_buffer (adc_dma_interrupt_handler m) \<noteq> None
       \<and> trace (adc_dma_interrupt_handler m) =
           trace m @ [DmaIrqAck (dma_channel m),
                      DmaChannelConfigure (dma_channel m)
                        (current_buffer (adc_dma_interrupt_handler m)) ADC_SAMPLING_FFT_SIZE True,
                      StoreDataReady True]"
  using run_consistent [OF init_consistent reach] unread
  by (auto simp: buffers_consistent_def isr_fields adc_sampling_get_buffer_def split: if_splits)

text \<open>
  After initialisation in DMA mode, a start and one completed transfer, a second
  completion finds the first buffer unread: the counter goes from 0 to 1 and the buffer
  handed over is \<open>Pong\<close>, not the unread \<open>Ping\<close>.
\<close>

theorem dma_overrun_hands_over_new_buffer_witness:
  "run (\<lambda>xs. xs) [Start, DmaCompletionIrq] (snd (adc_sampling_init ADC_MODE_DMA board0))
     = Some dma_one_frame
   \<and> mode dma_one_frame = ADC_MODE_DMA \<and> data_ready dma_one_frame
   \<and> ready_buffer dma_one_frame = Some Ping
   \<and> buffer_overruns (adc_dma_interrupt_handler dma_one_frame) = 1
   \<and> adc_sampling_get_buffer (adc_dma_interrupt_handler dma_one_frame) = Some Pong"
proof -
  have r: "run (\<lambda>xs. xs) [Start, DmaCompletionIrq] (snd (adc_sampling_init ADC_MODE_DMA board0))
             = Some dma_one_frame"
    by (simp add: dma_one_frame_def dma_started_def)
  note f = dma_one_frame_facts
  from dma_overrun_hands_over_new_buffer [OF r f(1) f(2)] f r show ?thesis by simp
qed

text \<open>
  Claim C2. Every sequence of calls (init, start, stop, poll, take, release, counter
  reset, processing, buffer swap, completion interrupt, passing of time) issued after
  \<^verbatim>\<open>adc_sampling_init\<close> runs to a state in which exactly one of the two arrays is the write
  target, the two arrays are not both the ready buffer, and neither array is ready buffer
  and write target at once.
\<close>

theorem buffer_roles_invariant:
  "\<exists>m. run kf calls (snd (adc_sampling_init md m0)) = Some m
     \<and> (is_write_target Ping m \<noteq> is_write_target Pong m)
     \<and> \<not> (is_ready_buffer Ping m \<and> is_ready_buffer Pong m)
     \<and> \<not> (is_ready_buffer Ping m \<and> is_write_target Ping m)
     \<and> \<not> (is_ready_buffer Pong m \<and> is_write_target Pong m)"
proof -
  from run_total [OF init_consistent] obtain m
    where r: "run kf calls (snd (adc_sampling_init md m0)) = Some m" by blast
  from run_consistent [OF init_consistent r] have
    "(is_write_target Ping m \<noteq> is_write_target Pong m)
     \<and> \<not> (is_ready_buffer Ping m \<and> is_ready_buffer Pong m)
     \<and> \<not> (is_ready_buffer Ping m \<and> is_write_target Ping m)
     \<and> \<not> (is_ready_buffer Pong m \<and> is_write_target Pong m)"
    by (auto simp: buffers_consistent_def is_write_target_def is_ready_buffer_def split: if_splits)
  with r show ?thesis by blast
qed

text \<open>
  Claim C8. In every state reached from \<^verbatim>\<open>adc_sampling_init\<close>, two successive buffer swaps
  bring the write target back to the array it was, while one swap moves it to the other
  array. From any state whatever, two swaps restore the selector and, once one swap has
  been made, two further swaps restore the write target.
\<close>

theorem swap_twice_restores_write_target:
  "(run kf calls (snd (adc_sampling_init md m0)) = Some m
      \<longrightarrow> current_buffer (adc_swap_buffers (adc_swap_buffers m)) = current_buffer m
        \<and> current_buffer (adc_swap_buffers m) \<noteq> current_buffer m)
   \<and> buffer_selector (adc_swap_buffers (adc_swap_buffers m1)) = buffer_selector m1
   \<and> current_buffer (adc_swap_buffers (adc_swap_buffers (adc_swap_buffers m1)))
        = current_buffer (adc_swap_buffers m1)"
proof -
  have "current_buffer (adc_swap_buffers (adc_swap_buffers m)) = current_buffer m
        \<and> current_buffer (adc_swap_buffers m) \<noteq> current_buffer m"
    if r: "run kf calls (snd (adc_sampling_init md m0)) = Some m"
    using run_consistent [OF init_consistent r]
    by (auto simp: buffers_consistent_def swap_fields split: if_splits)
  then show ?thesis by (simp add: swap_fields)
qed

text \<open>After one completed transfer the write target is \<open>Pong\<close>; one swap gives \<open>Ping\<close>, two give \<open>Pong\<close>.\<close>

theorem swap_twice_restores_write_target_witness:
  "run (\<lambda>xs. xs) [Start, DmaCompletionIrq] (snd (adc_sampling_init ADC_MODE_DMA board0))
     = Some dma_one_frame
   \<and> current_buffer dma_one_frame = Some Pong
   \<and> current_buffer (adc_swap_buffers dma_one_frame) = Some Ping
   \<and> current_buffer (adc_swap_buffers (adc_swap_buffers dma_one_frame)) = Some Pong"
proof -
  have r: "run (\<lambda>xs. xs) [Start, DmaCompletionIrq] (snd (adc_sampling_init ADC_MODE_DMA board0))
     = Some dma_one_frame"
    by (simp add: dma_one_frame_def dma_started_def)
  have "current_buffer (adc_swap_buffers dma_one_frame) = Some Ping"
    by (simp add: swap_fields dma_one_frame_facts)
  with swap_twice_restores_write_target
         [of "\<lambda>xs. xs" "[Start, DmaCompletionIrq]" ADC_MODE_DMA board0 dma_one_frame]
       r dma_one_frame_facts
  show ?thesis by simp
qed

text \<open>
  Claim C10. \<^verbatim>\<open>adc_sampling_complete_processing\<close> called while no buffer is ready returns
  the state it was given. Called while a buffer is ready it clears \<open>data_ready\<close>,
  \<open>fft_ready\<close> and \<open>ready_buffer\<close> (the store to the flag is recorded) and changes nothing
  else: in particular mode, status, write target, sample count, overrun count and measured
  rate are the same.
\<close>

theorem release_changes_only_ready_fields:
  "(if data_ready m
    then adc_sampling_complete_processing m =
           m\<lparr>data_ready := False, fft_ready := False, ready_buffer := None,
             trace := trace m @ [StoreDataReady False]\<rparr>
    else adc_sampling_complete_processing m = m)
   \<and> mode (adc_sampling_complete_processing m) = mode m
   \<and> status (adc_sampling_complete_processing m) = status m
   \<and> current_buffer (adc_sampling_complete_processing m) = current_buffer m
   \<and> sample_count (adc_sampling_complete_processing m) = sample_count m
   \<and> buffer_overruns (adc_sampling_complete_processing m) = buffer_overruns m
   \<and> actual_sample_rate (adc_sampling_complete_processing m) = actual_sample_rate m"
  by (simp add: adc_sampling_complete_processing_def hw_def)

section \<open>Transfer faults\<close>



section \<open>Polling for a ready buffer\<close>

text \<open>
  Claim C7. \<^verbatim>\<open>adc_sampling_is_ready\<close> depends on the mode. In manual mode, in a state
  reached from \<^verbatim>\<open>adc_sampling_init\<close> with sampling active and no data pending, the call
  itself runs the sampling loop: it reads \<^verbatim>\<open>ADC_SAMPLING_FFT_SIZE\<close> conversions, each
  followed by a sleep of the sampling interval (7 microseconds once the interval 7.8125
  is truncated to the integer parameter of \<^verbatim>\<open>sleep_us\<close>), stores them in order as the
  whole contents of the write target, hands that buffer over as the ready buffer and
  returns true; the timer has advanced by the duration of all conversions and sleeps. In
  DMA mode the call returns the flag and leaves the state, the timer and the event
  sequence as they were.
\<close>

theorem poll_ready_by_mode:
  "(run kf calls (snd (adc_sampling_init md m0)) = Some m
      \<and> mode m = ADC_MODE_MANUAL \<and> sampling_active m \<and> \<not> data_ready m
    \<longrightarrow> (\<exists>b m'. current_buffer m = Some b
            \<and> adc_sampling_is_ready m = Some (True, m')
            \<and> buffer_contents b m'
                = map (adc_input m) [adc_reads m..<adc_reads m + ADC_SAMPLING_FFT_SIZE]
            \<and> adc_sampling_get_buffer m' = Some b
            \<and> adc_reads m' = adc_reads m + ADC_SAMPLING_FFT_SIZE
            \<and> clock_us m' = clock_us m + ADC_SAMPLING_FFT_SIZE * (adc_conversion_us m + 7)
            \<and> trace m' = trace m @ concat (replicate ADC_SAMPLING_FFT_SIZE [AdcRead, SleepUs 7])
                            @ [StoreDataReady True]))
   \<and> (mode m = ADC_MODE_DMA \<longrightarrow> adc_sampling_is_ready m = Some (data_ready m, m))"
proof (intro conjI impI)
  assume h: "run kf calls (snd (adc_sampling_init md m0)) = Some m
      \<and> mode m = ADC_MODE_MANUAL \<and> sampling_active m \<and> \<not> data_ready m"
  then have r: "run kf calls (snd (adc_sampling_init md m0)) = Some m" by simp
  from run_consistent [OF init_consistent r] obtain b where cur: "current_buffer m = Some b"
    by (auto simp: buffers_consistent_def split: if_splits)
  from run_arrays [OF init_arrays r] have len: "length (buffer_contents b m) = ADC_SAMPLING_FFT_SIZE"
    by (cases b) (simp_all add: arrays_sized_def buffer_contents_def)
  from manual_sample_buffer_result [OF cur len] obtain m' where res:
      "adc_manual_sample_buffer m = Some m'"
      "buffer_contents b m' = map (adc_input m) [adc_reads m..<adc_reads m + ADC_SAMPLING_FFT_SIZE]"
      "ready_buffer m' = Some b" "data_ready m'"
      "adc_reads m' = adc_reads m + ADC_SAMPLING_FFT_SIZE"
      "clock_us m' = clock_us m + ADC_SAMPLING_FFT_SIZE * (adc_conversion_us m + 7)"
      "trace m' = trace m @ concat (replicate ADC_SAMPLING_FFT_SIZE [AdcRead, SleepUs 7])
                            @ [StoreDataReady True]"
    by blast
  from h res(1,4) have "adc_sampling_is_ready m = Some (True, m')"
    by (simp add: adc_sampling_is_ready_def)
  moreover from res have "adc_sampling_get_buffer m' = Some b"
    by (simp add: adc_sampling_get_buffer_def)
  ultimately show "\<exists>b m'. current_buffer m = Some b
            \<and> adc_sampling_is_ready m = Some (True, m')
            \<and> buffer_contents b m'
                = map (adc_input m) [adc_reads m..<adc_reads m + ADC_SAMPLING_FFT_SIZE]
            \<and> adc_sampling_get_buffer m' = Some b
            \<and> adc_reads m' = adc_reads m + ADC_SAMPLING_FFT_SIZE
            \<and> clock_us m' = clock_us m + ADC_SAMPLING_FFT_SIZE * (adc_conversion_us m + 7)
            \<and> trace m' = trace m @ concat (replicate ADC_SAMPLING_FFT_SIZE [AdcRead, SleepUs 7])
                            @ [StoreDataReady True]"
    using cur res by blast
next
  assume "mode m = ADC_MODE_DMA"
  then show "adc_sampling_is_ready m = Some (data_ready m, m)"
    by (simp add: adc_sampling_is_ready_def)
qed

text \<open>
  On the manual run the first poll fills \<open>Ping\<close> with the first 1024 conversions and
  takes 1024 times 9 microseconds; on the DMA run the poll returns false at once.
\<close>

theorem poll_ready_by_mode_witness:
  "run (\<lambda>xs. xs) [Start] (snd (adc_sampling_init ADC_MODE_MANUAL board0)) = Some manual_started
   \<and> mode manual_started = ADC_MODE_MANUAL \<and> sampling_active manual_started
   \<and> \<not> data_ready manual_started
   \<and> (\<exists>m'. adc_sampling_is_ready manual_started = Some (True, m')
          \<and> buffer_contents Ping m' = map (\<lambda>n. of_nat (n mod 7)) [0..<ADC_SAMPLING_FFT_SIZE]
          \<and> adc_sampling_get_buffer m' = Some Ping
          \<and> clock_us m' = 9216)
   \<and> mode dma_started = ADC_MODE_DMA
   \<and> adc_sampling_is_ready dma_started = Some (False, dma_started)"
proof -
  have r: "run (\<lambda>xs. xs) [Start] (snd (adc_sampling_init ADC_MODE_MANUAL board0)) = Some manual_started"
    by (simp add: manual_started_def)
  have a: "adc_input manual_started = (\<lambda>n. of_nat (n mod 7))" "adc_conversion_us manual_started = 2"
    by (simp_all add: manual_started_def board0_def power_on_def adc_sampling_start_def
      adc_sampling_init_def memset_analyzer_def adc_manual_init_def adc_sampling_reset_counters_def
      Let_def hw_def get_absolute_time_def)
  from poll_ready_by_mode [of "\<lambda>xs. xs" "[Start]" ADC_MODE_MANUAL board0 manual_started]
    r manual_started_facts
  obtain b m' where "current_buffer manual_started = Some b"
     "adc_sampling_is_ready manual_started = Some (True, m')"
     "buffer_contents b m' = map (adc_input manual_started)
        [adc_reads manual_started..<adc_reads manual_started + ADC_SAMPLING_FFT_SIZE]"
     "adc_sampling_get_buffer m' = Some b"
     "clock_us m' = clock_us manual_started
        + ADC_SAMPLING_FFT_SIZE * (adc_conversion_us manual_started + 7)"
    by blast
  then have "\<exists>m'. adc_sampling_is_ready manual_started = Some (True, m')
          \<and> buffer_contents Ping m' = map (\<lambda>n. of_nat (n mod 7)) [0..<ADC_SAMPLING_FFT_SIZE]
          \<and> adc_sampling_get_buffer m' = Some Ping
          \<and> clock_us m' = 9216"
    by (simp add: a manual_started_facts ADC_SAMPLING_FFT_SIZE_def)
  moreover from poll_ready_by_mode [of _ _ _ _ dma_started] dma_started_facts
  have "adc_sampling_is_ready dma_started = Some (False, dma_started)" by simp
  ultimately show ?thesis using r manual_started_facts dma_started_facts by simp
qed

section \<open>Magnitude, power level and clamping\<close>

text \<open>
  Claim C4. The claim asks for division by N at bin 0 and by N/2 at every other bin. The
  magnitude loop of the unified analyzer divides every bin by N: at bin 1, for the
  transform output 1024 + 0i, the normalised magnitude is 1 and the stored value is the
  power level of 1 ADC count, where division by N/2 gives 2. The earlier loop
  \<^verbatim>\<open>fft_realtime_analysis\<close> does divide by N/2 there (2 times its window correction).
\<close>

theorem unified_magnitude_divides_every_bin_by_size:
  "process_fft_magnitude (Complex 1024 0) = 1
   \<and> sqrt (1024 * 1024 + 0 * 0) / real (ADC_SAMPLING_FFT_SIZE div 2) = 2
   \<and> process_fft_spectrum (0 # Complex 1024 0 # replicate 1022 0) ! 1
        = process_fft_db (1 * ADC_VOLTAGE_PER_BIT)
   \<and> realtime_magnitude 1 (Complex 1024 0) = 2 * realtime_window_correction FFT_WINDOW_TYPE"
  by (simp add: process_fft_magnitude_def process_fft_spectrum_def process_fft_bin_def
      realtime_magnitude_def Let_def ADC_SAMPLING_FFT_SIZE_def FFT_SIZE_def)

text \<open>
  Claim C5, as the code has it. For every voltage the conversion of the unified analyzer
  returns 20 log10 (v / V0) with the fixed constant V0 = 0.274 V when v is above the floor
  of 1e-10 V, and the sentinel -200 otherwise. The constant is the value of
  sqrt (1 mW * 75 Ohm) rounded to three decimals and is not computed from the configured
  impedance; the result is within 0.01 dB of the formula with the exact square root.
  The logarithm is only taken of a positive number. The earlier loop uses the floor 1e-9 V
  on the impedance-corrected voltage and the sentinel -120.
\<close>

theorem power_level_conversion:
  "process_fft_db v =
     (if v > 1 / 10 ^ 10 then 20 * log 10 (v / DB_REFERENCE_VOLTAGE_0DBM) else - 200)
   \<and> (if v > 1 / 10 ^ 10
       then 0 < v / DB_REFERENCE_VOLTAGE_0DBM
          \<and> \<bar>process_fft_db v - 20 * log 10 (v / sqrt ((1 / 1000) * DB_REFERENCE_IMPEDANCE))\<bar> < 1 / 100
       else process_fft_db v = - 200)
   \<and> DB_REFERENCE_VOLTAGE_0DBM = 274 / 1000
   \<and> realtime_db v =
     (if v * IMPEDANCE_CORRECTION_FACTOR > 1 / 10 ^ 9
      then 20 * log 10 (v * IMPEDANCE_CORRECTION_FACTOR / DB_REFERENCE_VOLTAGE_0DBM) else - 120)"
proof -
  have a: "process_fft_db v =
     (if v > 1 / 10 ^ 10 then 20 * log 10 (v / DB_REFERENCE_VOLTAGE_0DBM) else - 200)"
    by (simp add: process_fft_db_def)
  have b: "realtime_db v =
     (if v * IMPEDANCE_CORRECTION_FACTOR > 1 / 10 ^ 9
      then 20 * log 10 (v * IMPEDANCE_CORRECTION_FACTOR / DB_REFERENCE_VOLTAGE_0DBM) else - 120)"
    by (simp add: realtime_db_def Let_def)
  have c: "\<bar>process_fft_db v - 20 * log 10 (v / sqrt ((1 / 1000) * DB_REFERENCE_IMPEDANCE))\<bar> < 1 / 100"
    if h: "v > 1 / 10 ^ 10"
  proof -
    from h have "0 < v" by (rule less_trans [rotated]) simp
    from log_ratio_split [OF this] ref_ratio_bound h show ?thesis
      by (simp add: process_fft_db_above)
  qed
  have d: "0 < v / DB_REFERENCE_VOLTAGE_0DBM" if h: "v > 1 / 10 ^ 10"
  proof -
    from h have "0 < v" by (rule less_trans [rotated]) simp
    then show ?thesis by (simp add: DB_REFERENCE_VOLTAGE_0DBM_def)
  qed
  show ?thesis using a b c d by (simp add: DB_REFERENCE_VOLTAGE_0DBM_def)
qed

text \<open>
  The claim as written fails at two inputs. At 0.274 V the code returns exactly 0, while
  the formula with V0 = sqrt (1 mW * Z) does not; and 0.5 nV, which is below a floor of
  1 nV, is not mapped to the sentinel.
\<close>

theorem power_level_reference_counterexample:
  "process_fft_db (274 / 1000) = 0
   \<and> 20 * log 10 ((274 / 1000) / sqrt ((1 / 1000) * DB_REFERENCE_IMPEDANCE)) \<noteq> 0
   \<and> (5 / 10 ^ 10 :: real) < 1 / 10 ^ 9
   \<and> process_fft_db (5 / 10 ^ 10) \<noteq> - 200"
proof -
  have a: "process_fft_db (274 / 1000) = 0"
    by (simp add: process_fft_db_def DB_REFERENCE_VOLTAGE_0DBM_def)
  have "sqrt ((1 / 1000) * DB_REFERENCE_IMPEDANCE) < 274 / 1000"
    by (rule real_less_lsqrt) (simp_all add: DB_REFERENCE_IMPEDANCE_def power2_eq_square)
  then have "1 < (274 / 1000) / sqrt ((1 / 1000) * DB_REFERENCE_IMPEDANCE)"
    by (simp add: DB_REFERENCE_IMPEDANCE_def)
  then have "0 < log 10 ((274 / 1000) / sqrt ((1 / 1000) * DB_REFERENCE_IMPEDANCE))"
    by (rule log10_pos)
  then have b: "20 * log 10 ((274 / 1000) / sqrt ((1 / 1000) * DB_REFERENCE_IMPEDANCE)) \<noteq> 0"
    by simp
  have "(10::real) powr (- 10) < (5 / 10 ^ 10) / (274 / 1000)"
    by (simp add: powr_minus powr_numeral field_simps)
  then have "- 10 < log 10 ((5 / 10 ^ 10) / (274 / 1000))"
    by (subst less_log_iff) simp_all
  then have c: "process_fft_db (5 / 10 ^ 10) \<noteq> - 200"
    by (simp add: process_fft_db_def DB_REFERENCE_VOLTAGE_0DBM_def)
  from a b c show ?thesis by simp
qed

text \<open>
  Claim C6, as the code has it. Every value the display uses lies in the display range:
  the display's update routine clamps each value it reads from the array it received
  (below -100 gives -100, above 20 gives 20, a value in between is kept), and the earlier
  loop clamps every entry before handing the array over. (The array handed over by the
  unified analyzer is not clamped.)
\<close>

theorem display_values_clamped:
  "AMPLITUDE_RANGE_MIN_DB \<le> stream_db_value published bin
   \<and> stream_db_value published bin \<le> AMPLITUDE_RANGE_MAX_DB
   \<and> stream_clamp_db x =
        (if x < AMPLITUDE_RANGE_MIN_DB then AMPLITUDE_RANGE_MIN_DB
         else if x > AMPLITUDE_RANGE_MAX_DB then AMPLITUDE_RANGE_MAX_DB else x)
   \<and> list_all (\<lambda>y. AMPLITUDE_RANGE_MIN_DB \<le> y \<and> y \<le> AMPLITUDE_RANGE_MAX_DB)
        (realtime_magnitude_db fft_out)"
proof -
  have "list_all (\<lambda>y. AMPLITUDE_RANGE_MIN_DB \<le> y \<and> y \<le> AMPLITUDE_RANGE_MAX_DB)
        (realtime_magnitude_db fft_out)"
    by (simp add: realtime_magnitude_db_def list_all_iff rclamp_range
        AMPLITUDE_RANGE_MIN_DB_def AMPLITUDE_RANGE_MAX_DB_def)
  moreover have "stream_clamp_db x =
        (if x < AMPLITUDE_RANGE_MIN_DB then AMPLITUDE_RANGE_MIN_DB
         else if x > AMPLITUDE_RANGE_MAX_DB then AMPLITUDE_RANGE_MAX_DB else x)"
    by (simp add: stream_clamp_db_def Let_def AMPLITUDE_RANGE_MIN_DB_def AMPLITUDE_RANGE_MAX_DB_def)
  ultimately show ?thesis
    using clamp_range [of "published ! bin"]
    by (simp add: stream_db_value_def AMPLITUDE_RANGE_MIN_DB_def AMPLITUDE_RANGE_MAX_DB_def)
qed

text \<open>
  The claim as written fails for the unified analyzer: for an all-zero transform output
  (a constant input signal) the array handed to the display holds -200 at bin 1, below
  the display range.
\<close>

theorem unified_hands_over_unclamped_value:
  "fft_realtime_unified_update_display
      (process_fft_spectrum (replicate ADC_SAMPLING_FFT_SIZE 0)) ! 1 = - 200
   \<and> - 200 < AMPLITUDE_RANGE_MIN_DB"
  by (simp add: fft_realtime_unified_update_display_def process_fft_spectrum_def
      window_correction_one process_fft_bin_zero ADC_SAMPLING_FFT_SIZE_def
      AMPLITUDE_RANGE_MIN_DB_def)

text \<open>
  Claim C9. For each of the seven window shapes the coherent-gain constant times the
  amplitude-correction constant is 1 (exactly, in real arithmetic); the seven shapes are
  all the shapes there are.
\<close>

theorem window_gain_times_correction:
  "WINDOW_COHERENT_GAIN w * WINDOW_AMPLITUDE_CORRECTION w = 1
   \<and> w \<in> set window_shapes \<and> length window_shapes = 7 \<and> distinct window_shapes"
  by (cases w) (simp_all add: window_shapes_def)

end
